theory Spec2Isabelle
  imports Main "HOL-Library.Word"
begin

unbundle bit_operations_syntax

section \<open>The PRUSS character device of \<open>uio_pruss.c\<close>\<close>

text \<open>
  The driver is written for the 32-bit ARM hosts that carry a PRUSS (AM335x, DA850):
  \<open>unsigned int\<close>, \<open>unsigned long\<close> and \<open>size_t\<close> are 32-bit words, \<open>u8\<close> is an 8-bit
  word. The character-device half of the file refers to \<open>_pdev\<close> and \<open>intr_completion\<close>
  outside any conditional, so it only builds with \<open>PRUSS_CHAR_DEVICE\<close> defined; the
  model takes it as defined.

  An \<open>__iomem\<close> pointer is modelled as the byte offset from the address \<open>ioremap\<close>
  returns for the PRUSS I/O resource, so that \<open>ioremap (...)\<close> is offset \<open>0\<close> and the
  pointer \<open>p\<close> of the file operations is \<open>PRUSS_SHAREDRAM_BASE\<close>.
\<close>

type_synonym u8 = "8 word"
type_synonym u32 = "32 word"

datatype errno = EINVAL | EBUSY | EFAULT

datatype io_access =
    Read8 nat
  | Read32 nat
  | Write8 nat u8
  | Write16 nat "16 word"
  | Write32 nat u32

fun is_write :: "io_access \<Rightarrow> bool" where
  "is_write (Read8 a) = False"
| "is_write (Read32 a) = False"
| "is_write (Write8 a v) = True"
| "is_write (Write16 a v) = True"
| "is_write (Write32 a v) = True"

record uio_pruss_dev =
  hostirq_start :: u32
  pintc_base :: u32

record platform_device =
  drvdata :: "uio_pruss_dev option"

text \<open>
  The state the character device works on: the bytes of the mapped I/O region
  (\<open>mem\<close>), the accesses the host has made to it in program order (\<open>io_log\<close>), the
  counter of \<open>intr_completion\<close>, the state of \<open>pruchar_mutex\<close>, the static array
  \<open>message\<close>, the pointer \<open>_pdev\<close> with its driver data, and the levels of the GPIO
  input pins.
\<close>

record state =
  mem :: "nat \<Rightarrow> u8"
  io_log :: "io_access list"
  completion_done :: nat
  mutex_locked :: bool
  message :: "u8 list"
  pdev :: "platform_device option"
  gpio :: "nat \<Rightarrow> bool"

subsection \<open>Constants\<close>

definition MAX_PRUSS_EVT :: nat where "MAX_PRUSS_EVT = 8"
definition PINTC_HIDISR :: nat where "PINTC_HIDISR = 0x0038"
definition PINTC_HIPIR :: nat where "PINTC_HIPIR = 0x0900"
definition HIPIR_NOPEND :: u32 where "HIPIR_NOPEND = 0x80000000"
definition PINTC_HIER :: nat where "PINTC_HIER = 0x1500"
definition PRU_EVTOUT :: nat where "PRU_EVTOUT = 3"

definition PRUSS_SHAREDRAM_BASE :: nat where "PRUSS_SHAREDRAM_BASE = 0x10000"
definition PINTC_HIEISR :: nat where "PINTC_HIEISR = 0x0034"
definition PRU_INTC_SECR1_REG :: nat where "PRU_INTC_SECR1_REG = 0x280"
definition PRU_ARM_INTERRUPT :: nat where "PRU_ARM_INTERRUPT = 20"
definition SZ_12K :: nat where "SZ_12K = 0x3000"


definition OLD_MESSAGE :: u8 where "OLD_MESSAGE = 0x55"
definition NEW_RECEIVED_MESSAGE :: u8 where "NEW_RECEIVED_MESSAGE = 0x00"
definition MESSAGE_TO_SEND :: u8 where "MESSAGE_TO_SEND = 0xff"

text \<open>The character constants \<open>'M'\<close> and \<open>'S'\<close>, at whatever width they are compared.\<close>

definition CHAR_M :: "'a::len word" where "CHAR_M = 0x4D"
definition CHAR_S :: "'a::len word" where "CHAR_S = 0x53"

definition GPIO_P8_31 :: nat where "GPIO_P8_31 = 10"
definition GPIO_P8_32 :: nat where "GPIO_P8_32 = 11"
definition GPIO_P8_33 :: nat where "GPIO_P8_33 = 9"
definition GPIO_P8_34 :: nat where "GPIO_P8_34 = 81"
definition GPIO_P8_35 :: nat where "GPIO_P8_35 = 8"

text \<open>\<open>enum ioctl_cmd\<close>\<close>

definition PRUSS_CLEAN :: u32 where "PRUSS_CLEAN = 10"
definition PRUSS_MODE :: u32 where "PRUSS_MODE = 11"
definition PRUSS_SYNC_STEP :: u32 where "PRUSS_SYNC_STEP = 12"
definition PRUSS_SET_COUNTER :: u32 where "PRUSS_SET_COUNTER = 13"
definition PRUSS_GET_HW_ADDRESS :: u32 where "PRUSS_GET_HW_ADDRESS = 14"
definition PRUSS_BAUDRATE :: u32 where "PRUSS_BAUDRATE = 15"
definition PRUSS_TIMEOUT :: u32 where "PRUSS_TIMEOUT = 16"

text \<open>\<open>enum offset\<close>\<close>

definition STATUS_OFFSET :: nat where "STATUS_OFFSET = 1"
definition BAUD_BRGCONFIG_OFFSET :: nat where "BAUD_BRGCONFIG_OFFSET = 2"
definition BAUD_LSB_OFFSET :: nat where "BAUD_LSB_OFFSET = 3"
definition BAUD_MSB_OFFSET :: nat where "BAUD_MSB_OFFSET = 4"
definition TIMEOUT_OFFSET :: nat where "TIMEOUT_OFFSET = 6"
definition HW_ADDR_OFFSET :: nat where "HW_ADDR_OFFSET = 24"
definition MODE_OFFSET :: nat where "MODE_OFFSET = 25"
definition BAUD_LENGTH_OFFSET :: nat where "BAUD_LENGTH_OFFSET = 26"
definition SYNC_STEP_OFFSET :: nat where "SYNC_STEP_OFFSET = 50"
definition MODE_COUNTER_OFFSET :: nat where "MODE_COUNTER_OFFSET = 80"
definition SHRAM_WRITE_OFFSET :: nat where "SHRAM_WRITE_OFFSET = 0x64"
definition SHRAM_READ_OFFSET :: nat where "SHRAM_READ_OFFSET = 0x1800"

subsection \<open>Memory-mapped I/O\<close>

text \<open>
  The accessors of \<open>linux/io.h\<close>. Each one is logged; a write stores its bytes in the
  region, little-endian, and a read returns the bytes the region holds. What the
  interrupt controller does with a value written to one of its registers is the
  hardware's business and is not in the driver: the log records the access.
\<close>

definition ioread8 :: "nat \<Rightarrow> state \<Rightarrow> u8 \<times> state" where
  "ioread8 a s = (mem s a, s\<lparr>io_log := io_log s @ [Read8 a]\<rparr>)"

definition iowrite8 :: "u8 \<Rightarrow> nat \<Rightarrow> state \<Rightarrow> state" where
  "iowrite8 v a s = s\<lparr>mem := (mem s)(a := v), io_log := io_log s @ [Write8 a v]\<rparr>"

definition le32 :: "(nat \<Rightarrow> u8) \<Rightarrow> nat \<Rightarrow> u32" where
  "le32 m a = ucast (m a) OR push_bit 8 (ucast (m (a + 1)))
                OR push_bit 16 (ucast (m (a + 2))) OR push_bit 24 (ucast (m (a + 3)))"

definition ioread32 :: "nat \<Rightarrow> state \<Rightarrow> u32 \<times> state" where
  "ioread32 a s = (le32 (mem s) a, s\<lparr>io_log := io_log s @ [Read32 a]\<rparr>)"

definition iowrite16 :: "16 word \<Rightarrow> nat \<Rightarrow> state \<Rightarrow> state" where
  "iowrite16 v a s =
     s\<lparr>mem := (mem s)(a := ucast v, a + 1 := ucast (drop_bit 8 v)),
       io_log := io_log s @ [Write16 a v]\<rparr>"

definition iowrite32 :: "u32 \<Rightarrow> nat \<Rightarrow> state \<Rightarrow> state" where
  "iowrite32 v a s =
     s\<lparr>mem := (mem s)(a := ucast v, a + 1 := ucast (drop_bit 8 v),
                       a + 2 := ucast (drop_bit 16 v), a + 3 := ucast (drop_bit 24 v)),
       io_log := io_log s @ [Write32 a v]\<rparr>"

subsection \<open>Control helpers\<close>

text \<open>
  \<open>__dev_config_baudrate\<close>. The \<open>switch\<close> selects the four locals; its \<open>default\<close>
  returns \<open>-EINVAL\<close> before any access to the region.
\<close>

definition baud_table :: "u32 \<Rightarrow> (u8 \<times> u8 \<times> u8 \<times> u32) option" where
  "baud_table baudrate =
     (if baudrate = 6 then Some (0x28, 0x02, 0, 1667)
      else if baudrate = 10 then Some (0x28, 0x01, 0, 1000)
      else if baudrate = 12 then Some (0x24, 0x01, 0, 833)
      else if baudrate = 9600 then Some (0x0a, 0x86, 0x01, 1041666)
      else if baudrate = 14400 then Some (0x07, 0x04, 0x01, 694444)
      else if baudrate = 19200 then Some (0x05, 0xc3, 0x00, 694444)
      else if baudrate = 38400 then Some (0x15, 0xc3, 0x00, 260416)
      else if baudrate = 57600 then Some (0x27, 0x04, 0x01, 173611)
      else if baudrate = 115200 then Some (0x09, 0x20, 0x00, 86805)
      else None)"

definition dev_config_baudrate :: "nat \<Rightarrow> u32 \<Rightarrow> state \<Rightarrow> (errno + int) \<times> state" where
  "dev_config_baudrate prussio_vaddr baudrate s =
     (case baud_table baudrate of
        None \<Rightarrow> (Inl EINVAL, s)
      | Some (brgconfig, div_lsb, div_msb, one_byte_length_ns) \<Rightarrow>
          let s = iowrite8 brgconfig (prussio_vaddr + BAUD_BRGCONFIG_OFFSET) s;
              s = iowrite8 div_lsb (prussio_vaddr + BAUD_LSB_OFFSET) s;
              s = iowrite8 div_msb (prussio_vaddr + BAUD_MSB_OFFSET) s;
              s = iowrite8 (ucast (one_byte_length_ns AND 0xff))
                    (prussio_vaddr + BAUD_LENGTH_OFFSET) s;
              s = iowrite8 (ucast (drop_bit 8 one_byte_length_ns AND 0xff))
                    (prussio_vaddr + BAUD_LENGTH_OFFSET + 1) s;
              s = iowrite8 (ucast (drop_bit 16 one_byte_length_ns AND 0xff))
                    (prussio_vaddr + BAUD_LENGTH_OFFSET + 2) s
          in (Inr 0, s))"

text \<open>
  \<open>__dev_get_hw_addr\<close>: the five pins are requested, sampled and freed; only the
  sampled levels reach the result.
\<close>

definition dev_get_hw_addr :: "state \<Rightarrow> u8" where
  "dev_get_hw_addr s =
     (let addr = 0;
          addr = (if gpio s GPIO_P8_31 then addr OR 0x01 else addr);
          addr = (if gpio s GPIO_P8_32 then addr OR 0x02 else addr);
          addr = (if gpio s GPIO_P8_33 then addr OR 0x04 else addr);
          addr = (if gpio s GPIO_P8_34 then addr OR 0x08 else addr);
          addr = (if gpio s GPIO_P8_35 then addr OR 0x10 else addr)
      in addr)"

text \<open>\<open>__dev_set_sync_counter\<close>\<close>

definition dev_set_sync_counter :: "nat \<Rightarrow> u32 \<Rightarrow> state \<Rightarrow> (errno + int) \<times> state" where
  "dev_set_sync_counter prussio_vaddr sync_counter s =
     (Inr 0, iowrite16 (ucast sync_counter) (prussio_vaddr + MODE_COUNTER_OFFSET) s)"

text \<open>
  The statement \<open>for (count = i; count < n; count++) body\<close>, with the loop counter
  handed to the body.
\<close>

function for_loop :: "nat \<Rightarrow> nat \<Rightarrow> (nat \<Rightarrow> 's \<Rightarrow> 's) \<Rightarrow> 's \<Rightarrow> 's" where
  "for_loop count n body s =
     (if count < n then for_loop (Suc count) n body (body count s) else s)"
  by pat_completeness auto
termination
  by (relation "measure (\<lambda>(count, n, body, s). n - count)") auto

declare for_loop.simps [simp del]

text \<open>\<open>__dev_clean_sram\<close>\<close>

definition dev_clean_sram :: "nat \<Rightarrow> state \<Rightarrow> (errno + int) \<times> state" where
  "dev_clean_sram prussio_vaddr s =
     (Inr 0, for_loop 0 100 (\<lambda>count. iowrite8 0 (prussio_vaddr + count)) s)"

text \<open>\<open>__dev_set_sync_stop\<close>\<close>

definition dev_set_sync_stop :: "nat \<Rightarrow> state \<Rightarrow> (errno + int) \<times> state" where
  "dev_set_sync_stop prussio_vaddr s =
     (let (m, s) = ioread8 (prussio_vaddr + MODE_OFFSET) s
      in if m \<noteq> CHAR_M then (Inl EINVAL, s)
         else (Inr 0, iowrite8 0 (prussio_vaddr + 5) s))"

text \<open>\<open>__dev_set_sync_step\<close>\<close>

definition dev_set_sync_step :: "nat \<Rightarrow> state \<Rightarrow> (errno + int) \<times> state" where
  "dev_set_sync_step prussio_vaddr s =
     (let s = iowrite8 0x06 (prussio_vaddr + SYNC_STEP_OFFSET) s;
          s = iowrite8 0xff (prussio_vaddr + SYNC_STEP_OFFSET + 1) s;
          s = iowrite8 0x50 (prussio_vaddr + SYNC_STEP_OFFSET + 2) s;
          s = iowrite8 0x00 (prussio_vaddr + SYNC_STEP_OFFSET + 3) s;
          s = iowrite8 0x01 (prussio_vaddr + SYNC_STEP_OFFSET + 4) s;
          s = iowrite8 0x0c (prussio_vaddr + SYNC_STEP_OFFSET + 5) s;
          s = iowrite8 0xa4 (prussio_vaddr + SYNC_STEP_OFFSET + 6) s
      in (Inr 0, s))"

subsection \<open>Kernel primitives: mutex, completion, user copy\<close>

text \<open>
  \<open>mutex_trylock\<close> takes the mutex and returns \<open>True\<close> when it is free, and returns
  \<open>False\<close> without waiting when it is held. A completion is a counter: \<open>complete\<close>
  adds one, \<open>init_completion\<close> sets it to zero, \<open>wait_for_completion\<close> sleeps
  until it is positive and then takes one.
\<close>

definition mutex_trylock :: "state \<Rightarrow> bool \<times> state" where
  "mutex_trylock s =
     (if mutex_locked s then (False, s) else (True, s\<lparr>mutex_locked := True\<rparr>))"

definition mutex_unlock :: "state \<Rightarrow> state" where
  "mutex_unlock s = s\<lparr>mutex_locked := False\<rparr>"

definition init_completion :: "state \<Rightarrow> state" where
  "init_completion s = s\<lparr>completion_done := 0\<rparr>"

definition complete :: "state \<Rightarrow> state" where
  "complete s = s\<lparr>completion_done := Suc (completion_done s)\<rparr>"

text \<open>
  \<open>copy_to_user (to, from, n)\<close> returns the number of bytes it could not copy. The
  destination is described by the number of bytes that can be written from \<open>to\<close> on;
  the second component is what the caller's buffer receives.
\<close>

definition copy_to_user :: "nat \<Rightarrow> u8 list \<Rightarrow> nat \<Rightarrow> nat \<times> u8 list" where
  "copy_to_user writable from n = (n - min n writable, take (min n writable) from)"

subsection \<open>The interrupt handler\<close>

datatype irqreturn = IRQ_NONE | IRQ_HANDLED

text \<open>
  \<open>pruss_handler\<close>. The second operand of \<open>&&\<close> reads the pending register only when
  the first operand holds. \<open>intr_bit\<close> is non-negative and below 32 for every line
  the driver registers (\<open>hostirq_start + cnt\<close> with \<open>cnt < MAX_PRUSS_EVT\<close>).
\<close>

definition pruss_handler :: "u32 \<Rightarrow> uio_pruss_dev \<Rightarrow> state \<Rightarrow> irqreturn \<times> state" where
  "pruss_handler irq gdev s =
     (let intr_bit = irq - hostirq_start gdev + 2;
          intr_mask = push_bit (unat intr_bit) (1 :: u32);
          base = 0 + unat (pintc_base gdev);
          intren_reg = base + PINTC_HIER;
          intrdis_reg = base + PINTC_HIDISR;
          intrstat_reg = base + PINTC_HIPIR + unat (push_bit 2 intr_bit);
          handled = (\<lambda>s.
            let s = (if unat intr_bit = PRU_EVTOUT then complete s else s);
                s = iowrite32 intr_bit intrdis_reg s
            in (IRQ_HANDLED, s));
          (val, s) = ioread32 intren_reg s
      in if val AND intr_mask = 0
         then (let (stat, s') = ioread32 intrstat_reg s
               in if stat AND HIPIR_NOPEND \<noteq> 0 then (IRQ_NONE, s') else handled s')
         else handled s)"

subsection \<open>The hardware while the host waits\<close>

text \<open>
  While the host sleeps on the completion or spins on the status byte, the coprocessor
  changes bytes of the region and the interrupt controller raises host interrupt lines,
  which run \<open>pruss_handler\<close>. A schedule is the finite list of these events that are
  still to come; a wait that outlives its schedule never returns (\<open>None\<close>).
\<close>

datatype hw_event = Pru "(nat \<Rightarrow> u8) \<Rightarrow> (nat \<Rightarrow> u8)" | Irq u32

fun hw_step :: "uio_pruss_dev \<Rightarrow> hw_event \<Rightarrow> state \<Rightarrow> state" where
  "hw_step gdev (Pru f) s = s\<lparr>mem := f (mem s)\<rparr>"
| "hw_step gdev (Irq irq) s = snd (pruss_handler irq gdev s)"

fun wait_for_completion ::
  "uio_pruss_dev \<Rightarrow> hw_event list \<Rightarrow> state \<Rightarrow> (hw_event list \<times> state) option" where
  "wait_for_completion gdev [] s =
     (if 0 < completion_done s
      then Some ([], s\<lparr>completion_done := completion_done s - 1\<rparr>) else None)"
| "wait_for_completion gdev (e # evs) s =
     (if 0 < completion_done s
      then Some (e # evs, s\<lparr>completion_done := completion_done s - 1\<rparr>)
      else wait_for_completion gdev evs (hw_step gdev e s))"

text \<open>\<open>while (ioread8(p + STATUS_OFFSET) != OLD_MESSAGE);\<close>\<close>

fun poll_status ::
  "uio_pruss_dev \<Rightarrow> nat \<Rightarrow> hw_event list \<Rightarrow> state \<Rightarrow> (hw_event list \<times> state) option" where
  "poll_status gdev p [] s =
     (let (st, s) = ioread8 (p + STATUS_OFFSET) s
      in if st \<noteq> OLD_MESSAGE then None else Some ([], s))"
| "poll_status gdev p (e # evs) s =
     (let (st, s) = ioread8 (p + STATUS_OFFSET) s
      in if st \<noteq> OLD_MESSAGE then poll_status gdev p evs (hw_step gdev e s)
         else Some (e # evs, s))"

subsection \<open>File operations\<close>

definition dev_open :: "state \<Rightarrow> (errno + int) \<times> state" where
  "dev_open s =
     (let (got, s) = mutex_trylock s
      in if \<not> got then (Inl EBUSY, s)
         else (Inr 0, init_completion s))"

definition dev_release :: "state \<Rightarrow> (errno + int) \<times> state" where
  "dev_release s = (Inr 0, mutex_unlock s)"

text \<open>
  \<open>dev_read\<close>. \<open>writable\<close> describes the caller's \<open>buffer\<close> (see \<open>copy_to_user\<close>);
  \<open>len\<close> and \<open>offset\<close> are the remaining two arguments. The result is the return
  value, the bytes the caller's buffer receives, and the new state.
\<close>

definition dev_read ::
  "nat \<Rightarrow> u32 \<Rightarrow> 64 word \<Rightarrow> state \<Rightarrow> (errno + int) \<times> u8 list \<times> state" where
  "dev_read writable len offset s =
     (case pdev s of
        None \<Rightarrow> (Inl EINVAL, [], s)
      | Some pd \<Rightarrow>
         (case drvdata pd of
            None \<Rightarrow> (Inl EINVAL, [], s)
          | Some gdev \<Rightarrow>
              let p = 0 + PRUSS_SHAREDRAM_BASE;
                  s = for_loop 0 SZ_12K
                        (\<lambda>count s. let (v, s) = ioread8 (p + count) s
                                   in s\<lparr>message := (message s)[count := v]\<rparr>) s;
                  count = SZ_12K;
                  (uncopied, user) = copy_to_user writable (message s) count
              in if uncopied \<noteq> 0 then (Inl EFAULT, user, s)
                 else (Inr 0, user, s)))"

text \<open>
  \<open>dev_write\<close>. \<open>buffer\<close> is the caller's memory from the pointer \<open>buffer\<close> on, which
  the loop reads at \<open>buffer[count]\<close>. \<open>return len\<close> converts the \<open>size_t\<close> to the signed
  \<open>ssize_t\<close>. The function sleeps in \<open>wait_for_completion\<close> and may spin in its last
  loop: its statements up to the sleep are \<open>dev_write_send\<close>, the two writes to the
  interrupt controller after it are \<open>dev_write_rearm\<close>, and the result of \<open>dev_write\<close> is
  \<open>None\<close> when the call never returns.
\<close>

definition dev_write_send :: "nat \<Rightarrow> (nat \<Rightarrow> u8) \<Rightarrow> u32 \<Rightarrow> state \<Rightarrow> state" where
  "dev_write_send p buffer len s =
     (let (m, s) = ioread8 (p + MODE_OFFSET) s;
          s = iowrite32 len (p + SHRAM_WRITE_OFFSET) s;
          s = for_loop 0 (unat len)
                (\<lambda>count. iowrite8 (buffer count) (p + SHRAM_WRITE_OFFSET + 4 + count)) s;
          s = iowrite8 MESSAGE_TO_SEND (p + STATUS_OFFSET) s
      in s)"

definition dev_write_rearm :: "nat \<Rightarrow> state \<Rightarrow> state" where
  "dev_write_rearm intrc s =
     (let s = iowrite32 (push_bit PRU_ARM_INTERRUPT 1) (intrc + PRU_INTC_SECR1_REG) s;
          s = iowrite32 (push_bit PRU_EVTOUT 1) (intrc + PINTC_HIEISR) s
      in s)"

definition dev_write ::
  "hw_event list \<Rightarrow> (nat \<Rightarrow> u8) \<Rightarrow> u32 \<Rightarrow> state
     \<Rightarrow> ((errno + int) \<times> hw_event list \<times> state) option" where
  "dev_write evs buffer len s =
     (case pdev s of
        None \<Rightarrow> Some (Inl EINVAL, evs, s)
      | Some pd \<Rightarrow>
         (case drvdata pd of
            None \<Rightarrow> Some (Inl EFAULT, evs, s)
          | Some gdev \<Rightarrow>
              let base = 0;
                  p = base + PRUSS_SHAREDRAM_BASE;
                  intrc = base + unat (pintc_base gdev);
                  s = dev_write_send p buffer len s
              in case wait_for_completion gdev evs s of
                   None \<Rightarrow> None
                 | Some (evs, s) \<Rightarrow>
                     let s = dev_write_rearm intrc s;
                         (m, s) = ioread8 (p + MODE_OFFSET) s
                     in if m = CHAR_M
                        then (case poll_status gdev p evs s of
                                None \<Rightarrow> None
                              | Some (evs, s) \<Rightarrow> Some (Inr (sint len), evs, s))
                        else Some (Inr (sint len), evs, s)))"

text \<open>
  \<open>dev_unlocked_ioctl\<close>. In \<open>PRUSS_TIMEOUT\<close> the three upper lanes are written from
  the comparisons \<open>arg > 8\<close>, \<open>arg > 16\<close> and \<open>arg > 24\<close>, whose value is 0 or 1.
\<close>

definition dev_unlocked_ioctl :: "u32 \<Rightarrow> u32 \<Rightarrow> state \<Rightarrow> (errno + int) \<times> state" where
  "dev_unlocked_ioctl cmd arg s =
     (case pdev s of
        None \<Rightarrow> (Inl EINVAL, s)
      | Some pd \<Rightarrow>
         (case drvdata pd of
            None \<Rightarrow> (Inl EFAULT, s)
          | Some gdev \<Rightarrow>
              let p = 0 + PRUSS_SHAREDRAM_BASE in
              if cmd = PRUSS_MODE then
                (if arg = CHAR_M \<or> arg = CHAR_S then
                   let s = iowrite8 (ucast arg) (p + MODE_OFFSET) s;
                       (r, s) = dev_set_sync_stop p s;
                       s = (if arg = CHAR_S then iowrite8 OLD_MESSAGE (p + STATUS_OFFSET) s else s)
                   in (Inr 0, s)
                 else (Inl EINVAL, s))
              else if cmd = PRUSS_BAUDRATE then dev_config_baudrate p arg s
              else if cmd = PRUSS_SYNC_STEP then dev_set_sync_step p s
              else if cmd = PRUSS_CLEAN then dev_clean_sram p s
              else if cmd = PRUSS_SET_COUNTER then dev_set_sync_counter p arg s
              else if cmd = PRUSS_GET_HW_ADDRESS then
                (let hw_addr = dev_get_hw_addr s;
                     s = iowrite8 hw_addr (p + HW_ADDR_OFFSET) s
                 in (Inr 0, s))
              else if cmd = PRUSS_TIMEOUT then
                (let arg = arg * 66600;
                     s = iowrite8 (ucast (arg AND 0xff)) (p + TIMEOUT_OFFSET) s;
                     s = iowrite8 (ucast ((if arg > 8 then 1 else 0) AND (0xff :: u32)))
                           (p + TIMEOUT_OFFSET + 1) s;
                     s = iowrite8 (ucast ((if arg > 16 then 1 else 0) AND (0xff :: u32)))
                           (p + TIMEOUT_OFFSET + 2) s;
                     s = iowrite8 (ucast ((if arg > 24 then 1 else 0) AND (0xff :: u32)))
                           (p + TIMEOUT_OFFSET + 3) s
                 in (Inr 0, s))
              else (Inl EINVAL, s)))"

subsection \<open>Example states\<close>

text \<open>
  A device that has been probed (interrupt lines from 20 on, interrupt controller at
  \<open>0x20000\<close>) with an all-zero region, and the same device with every byte of the
  region holding \<open>0xAA\<close>.
\<close>

definition probed_dev :: uio_pruss_dev where
  "probed_dev = \<lparr>hostirq_start = 20, pintc_base = 0x20000\<rparr>"

definition boot_state :: state where
  "boot_state = \<lparr>mem = (\<lambda>a. 0), io_log = [], completion_done = 0, mutex_locked = False,
     message = replicate SZ_12K 0,
     pdev = Some \<lparr>drvdata = Some probed_dev\<rparr>,
     gpio = (\<lambda>n. False)\<rparr>"

definition dirty_state :: state where
  "dirty_state = boot_state\<lparr>mem := (\<lambda>a. 0xAA)\<rparr>"

text \<open>
  The probed device with \<open>0x11\<close> in every byte below offset \<open>0x11800\<close> of the region and
  \<open>0x22\<close> from there on, so that the shared RAM starts with \<open>0x11\<close> and its bytes from
  \<open>SHRAM_READ_OFFSET\<close> on hold \<open>0x22\<close>.
\<close>

definition window_state :: state where
  "window_state = boot_state\<lparr>mem := (\<lambda>a. if a < 0x11800 then 0x11 else 0x22)\<rparr>"

text \<open>
  The probed device with bit 3 of the interrupt controller's enable register
  (\<open>PINTC_HIER\<close>) set, and with only the no-pending bit of the pending register of
  host interrupt 3 (\<open>PINTC_HIPIR + 12\<close>) set.
\<close>

definition armed_state :: state where
  "armed_state = boot_state\<lparr>mem := (\<lambda>a. if a = 0x21500 then 0x08 else 0)\<rparr>"

definition idle_state :: state where
  "idle_state = boot_state\<lparr>mem := (\<lambda>a. if a = 0x2090F then 0x80 else 0)\<rparr>"





section \<open>Basic facts\<close>

lemmas offset_defs =
  STATUS_OFFSET_def BAUD_BRGCONFIG_OFFSET_def BAUD_LSB_OFFSET_def BAUD_MSB_OFFSET_def
  TIMEOUT_OFFSET_def HW_ADDR_OFFSET_def MODE_OFFSET_def BAUD_LENGTH_OFFSET_def
  SYNC_STEP_OFFSET_def MODE_COUNTER_OFFSET_def SHRAM_WRITE_OFFSET_def
  SHRAM_READ_OFFSET_def PRUSS_SHAREDRAM_BASE_def

lemmas cmd_defs =
  PRUSS_CLEAN_def PRUSS_MODE_def PRUSS_SYNC_STEP_def PRUSS_SET_COUNTER_def
  PRUSS_GET_HW_ADDRESS_def PRUSS_BAUDRATE_def PRUSS_TIMEOUT_def

lemma for_loop_fold: "for_loop i n body s = fold body [i..<n] s"
proof (induction i n body s rule: for_loop.induct)
  case (1 count n body s)
  show ?case
  proof (cases "count < n")
    case True
    with 1 show ?thesis
      by (subst for_loop.simps) (simp add: upt_rec [of count n])
  next
    case False
    then show ?thesis by (subst for_loop.simps) simp
  qed
qed

lemma fold_iowrite8:
  "i \<le> n \<Longrightarrow>
   fold (\<lambda>count. iowrite8 (f count) (a + count)) [i..<n] s =
     s\<lparr>mem := (\<lambda>x. if a + i \<le> x \<and> x < a + n then f (x - a) else mem s x),
       io_log := io_log s @ map (\<lambda>count. Write8 (a + count) (f count)) [i..<n]\<rparr>"
proof (induction n)
  case 0
  have "(\<lambda>x. if a + i \<le> x \<and> x < a + 0 then f (x - a) else mem s x) = mem s"
    by (auto simp: fun_eq_iff)
  with 0 show ?case by simp
next
  case (Suc n)
  show ?case
  proof (cases "i = Suc n")
    case True
    have "(\<lambda>x. if a + i \<le> x \<and> x < a + i then f (x - a) else mem s x) = mem s"
      by (auto simp: fun_eq_iff)
    with True show ?thesis by simp
  next
    case False
    with Suc.prems have le: "i \<le> n" by simp
    have eq: "(\<lambda>x. if x = a + n then f n else if a + i \<le> x \<and> x < a + n then f (x - a) else mem s x)
        = (\<lambda>x. if a + i \<le> x \<and> x < a + Suc n then f (x - a) else mem s x)"
      using le by (auto simp: fun_eq_iff)
    have "fold (\<lambda>count. iowrite8 (f count) (a + count)) [i..<Suc n] s =
          iowrite8 (f n) (a + n) (fold (\<lambda>count. iowrite8 (f count) (a + count)) [i..<n] s)"
      using le by simp
    also have "\<dots> = iowrite8 (f n) (a + n)
         (s\<lparr>mem := (\<lambda>x. if a + i \<le> x \<and> x < a + n then f (x - a) else mem s x),
            io_log := io_log s @ map (\<lambda>count. Write8 (a + count) (f count)) [i..<n]\<rparr>)"
      by (simp only: Suc.IH [OF le])
    also have "\<dots> =
         s\<lparr>mem := (\<lambda>x. if a + i \<le> x \<and> x < a + Suc n then f (x - a) else mem s x),
           io_log := io_log s @ map (\<lambda>count. Write8 (a + count) (f count)) [i..<Suc n]\<rparr>"
      using le eq by (simp add: iowrite8_def fun_upd_def)
    finally show ?thesis .
  qed
qed

lemma dev_clean_sram_eq:
  "dev_clean_sram a s =
     (Inr 0, s\<lparr>mem := (\<lambda>x. if a \<le> x \<and> x < a + 100 then 0 else mem s x),
               io_log := io_log s @ map (\<lambda>count. Write8 (a + count) 0) [0..<100]\<rparr>)"
  unfolding dev_clean_sram_def for_loop_fold
  using fold_iowrite8 [of 0 100 "\<lambda>count. 0" a s] by simp

lemma ioctl_attached:
  assumes "pdev s = Some pd" and "drvdata pd = Some gdev"
  shows "dev_unlocked_ioctl cmd arg s =
     (let p = 0 + PRUSS_SHAREDRAM_BASE in
              if cmd = PRUSS_MODE then
                (if arg = CHAR_M \<or> arg = CHAR_S then
                   let s = iowrite8 (ucast arg) (p + MODE_OFFSET) s;
                       (r, s) = dev_set_sync_stop p s;
                       s = (if arg = CHAR_S then iowrite8 OLD_MESSAGE (p + STATUS_OFFSET) s else s)
                   in (Inr 0, s)
                 else (Inl EINVAL, s))
              else if cmd = PRUSS_BAUDRATE then dev_config_baudrate p arg s
              else if cmd = PRUSS_SYNC_STEP then dev_set_sync_step p s
              else if cmd = PRUSS_CLEAN then dev_clean_sram p s
              else if cmd = PRUSS_SET_COUNTER then dev_set_sync_counter p arg s
              else if cmd = PRUSS_GET_HW_ADDRESS then
                (let hw_addr = dev_get_hw_addr s;
                     s = iowrite8 hw_addr (p + HW_ADDR_OFFSET) s
                 in (Inr 0, s))
              else if cmd = PRUSS_TIMEOUT then
                (let arg = arg * 66600;
                     s = iowrite8 (ucast (arg AND 0xff)) (p + TIMEOUT_OFFSET) s;
                     s = iowrite8 (ucast ((if arg > 8 then 1 else 0) AND (0xff :: u32)))
                           (p + TIMEOUT_OFFSET + 1) s;
                     s = iowrite8 (ucast ((if arg > 16 then 1 else 0) AND (0xff :: u32)))
                           (p + TIMEOUT_OFFSET + 2) s;
                     s = iowrite8 (ucast ((if arg > 24 then 1 else 0) AND (0xff :: u32)))
                           (p + TIMEOUT_OFFSET + 3) s
                 in (Inr 0, s))
              else (Inl EINVAL, s))"
  using assms unfolding dev_unlocked_ioctl_def by simp

lemma boot_attached:
  "pdev boot_state = Some \<lparr>drvdata = Some probed_dev\<rparr>"
  "drvdata \<lparr>drvdata = Some probed_dev\<rparr>
     = Some probed_dev"
  by (simp_all add: boot_state_def)

lemma ioctl_clean:
  assumes "pdev s = Some pd" and "drvdata pd = Some gdev"
  shows "dev_unlocked_ioctl PRUSS_CLEAN arg s =
     (Inr 0, s\<lparr>mem := (\<lambda>x. if 0x10000 \<le> x \<and> x < 0x10000 + 100 then 0 else mem s x),
               io_log := io_log s @ map (\<lambda>count. Write8 (0x10000 + count) 0) [0..<100]\<rparr>)"
  by (simp add: ioctl_attached [OF assms] cmd_defs dev_clean_sram_eq PRUSS_SHAREDRAM_BASE_def)

lemma dirty_attached:
  "pdev dirty_state = Some \<lparr>drvdata = Some probed_dev\<rparr>"
  by (simp add: dirty_state_def boot_state_def)

lemma ucast_and_ff: "(ucast (w AND 0xff) :: u8) = ucast (w :: u32)"
proof -
  have "(0xff :: u32) = mask 8" by (simp add: mask_eq_exp_minus_1)
  then show ?thesis
    by (simp add: bit_eq_iff bit_simps) 
qed

lemma baud_table_supported:
  "rate \<in> {6, 10, 12, 9600, 14400, 19200, 38400, 57600, 115200} \<Longrightarrow>
     \<exists>cfg lsb msb ns. baud_table rate = Some (cfg, lsb, msb, ns) \<and> ns < 2 ^ 24"
  unfolding baud_table_def
  by auto

lemma baud_table_unsupported:
  "rate \<notin> {6, 10, 12, 9600, 14400, 19200, 38400, 57600, 115200} \<Longrightarrow> baud_table rate = None"
  unfolding baud_table_def by simp

lemma dev_config_baudrate_Some:
  "baud_table rate = Some (cfg, lsb, msb, ns) \<Longrightarrow>
   dev_config_baudrate a rate s =
     (Inr 0,
      s\<lparr>mem := (mem s)(a + 2 := cfg, a + 3 := lsb, a + 4 := msb,
                       a + 26 := ucast ns,
                       a + 27 := ucast (drop_bit 8 ns),
                       a + 28 := ucast (drop_bit 16 ns)),
        io_log := io_log s @
          [Write8 (a + 2) cfg, Write8 (a + 3) lsb, Write8 (a + 4) msb,
           Write8 (a + 26) (ucast ns),
           Write8 (a + 27) (ucast (drop_bit 8 ns)),
           Write8 (a + 28) (ucast (drop_bit 16 ns))]\<rparr>)"
  by (simp add: dev_config_baudrate_def iowrite8_def offset_defs ucast_and_ff add.commute)

lemma dev_config_baudrate_None:
  "baud_table rate = None \<Longrightarrow> dev_config_baudrate a rate s = (Inl EINVAL, s)"
  by (simp add: dev_config_baudrate_def)

lemma dev_set_sync_stop_eq:
  "dev_set_sync_stop a s =
     (if mem s (a + 25) = CHAR_M
      then (Inr 0, s\<lparr>mem := (mem s)(a + 5 := 0),
                      io_log := io_log s @ [Read8 (a + 25), Write8 (a + 5) 0]\<rparr>)
      else (Inl EINVAL, s\<lparr>io_log := io_log s @ [Read8 (a + 25)]\<rparr>))"
  by (simp add: dev_set_sync_stop_def ioread8_def iowrite8_def MODE_OFFSET_def)

lemma char_neq: "(CHAR_S :: u8) \<noteq> CHAR_M" "(CHAR_S :: u32) \<noteq> CHAR_M"
  "(ucast (CHAR_M :: u32) :: u8) = CHAR_M" "(ucast (CHAR_S :: u32) :: u8) = CHAR_S"
  by (simp_all add: CHAR_M_def CHAR_S_def)

lemma set_mode_M:
  assumes "pdev s = Some pd" and "drvdata pd = Some gdev"
  shows "dev_unlocked_ioctl PRUSS_MODE CHAR_M s =
     (Inr 0, s\<lparr>mem := (mem s)(0x10019 := CHAR_M, 0x10005 := 0),
        io_log := io_log s @ [Write8 0x10019 CHAR_M, Read8 0x10019, Write8 0x10005 0]\<rparr>)"
  by (simp add: ioctl_attached [OF assms] dev_set_sync_stop_eq iowrite8_def char_neq
      char_neq(2) [symmetric] offset_defs OLD_MESSAGE_def)

lemma set_mode_S:
  assumes "pdev s = Some pd" and "drvdata pd = Some gdev"
  shows "dev_unlocked_ioctl PRUSS_MODE CHAR_S s =
     (Inr 0, s\<lparr>mem := (mem s)(0x10019 := CHAR_S, 0x10001 := 0x55),
        io_log := io_log s @ [Write8 0x10019 CHAR_S, Read8 0x10019, Write8 0x10001 0x55]\<rparr>)"
  by (simp add: ioctl_attached [OF assms] dev_set_sync_stop_eq iowrite8_def char_neq
      offset_defs OLD_MESSAGE_def)

lemma set_mode_other:
  assumes "pdev s = Some pd" and "drvdata pd = Some gdev"
    and "m \<noteq> CHAR_M" and "m \<noteq> CHAR_S"
  shows "dev_unlocked_ioctl PRUSS_MODE m s = (Inl EINVAL, s)"
  using assms(3,4) by (simp add: ioctl_attached [OF assms(1,2)])

lemma set_mode_steps:
  assumes "pdev s = Some pd" and "drvdata pd = Some gdev"
    and "m = CHAR_M \<or> m = CHAR_S"
  shows "dev_unlocked_ioctl PRUSS_MODE m s =
     (let s1 = iowrite8 (ucast m) (PRUSS_SHAREDRAM_BASE + MODE_OFFSET) s;
          s2 = snd (dev_set_sync_stop PRUSS_SHAREDRAM_BASE s1);
          s3 = (if m = CHAR_S then iowrite8 OLD_MESSAGE (PRUSS_SHAREDRAM_BASE + STATUS_OFFSET) s2
                else s2)
      in (Inr 0, s3))"
  using assms(3) by (auto simp add: ioctl_attached [OF assms(1,2)] Let_def split: prod.splits)

lemma ioctl_keeps_attached:
  assumes "pdev s = Some pd" and "drvdata pd = Some gdev"
  shows "pdev (snd (dev_unlocked_ioctl PRUSS_MODE CHAR_M s)) = Some pd"
  using assms(1) by (simp add: set_mode_M [OF assms])

lemma set_timeout_eq:
  assumes "pdev s = Some pd" and "drvdata pd = Some gdev"
  shows "dev_unlocked_ioctl PRUSS_TIMEOUT n s =
    (Inr 0, s\<lparr>mem := (mem s)(0x10006 := ucast (n * 66600),
                  0x10007 := (if n * 66600 > 8 then 1 else 0),
                  0x10008 := (if n * 66600 > 16 then 1 else 0),
                  0x10009 := (if n * 66600 > 24 then 1 else 0)),
       io_log := io_log s @ [Write8 0x10006 (ucast (n * 66600)),
                  Write8 0x10007 (if n * 66600 > 8 then 1 else 0),
                  Write8 0x10008 (if n * 66600 > 16 then 1 else 0),
                  Write8 0x10009 (if n * 66600 > 24 then 1 else 0)]\<rparr>)"
  by (simp add: ioctl_attached [OF assms] cmd_defs offset_defs iowrite8_def ucast_and_ff Let_def)

lemma boot_message_length: "length (message boot_state) = SZ_12K"
  by (simp add: boot_state_def)

lemma window_attached:
  "pdev window_state = Some \<lparr>drvdata = Some probed_dev\<rparr>"
  "length (message window_state) = SZ_12K"
  by (simp_all add: window_state_def boot_state_def)

lemma drop_update_hd: "n < length xs \<Longrightarrow> (drop n xs)[0 := v] = v # drop (Suc n) xs"
  by (simp add: Cons_nth_drop_Suc [symmetric])

lemma fold_read_message:
  "n \<le> length (message s) \<Longrightarrow>
   fold (\<lambda>count s. let (v, s) = ioread8 (p + count) s
                    in s\<lparr>message := (message s)[count := v]\<rparr>) [0..<n] s =
     s\<lparr>message := map (\<lambda>i. mem s (p + i)) [0..<n] @ drop n (message s),
       io_log := io_log s @ map (\<lambda>i. Read8 (p + i)) [0..<n]\<rparr>"
proof (induction n)
  case 0
  then show ?case by simp
next
  case (Suc n)
  then have lt: "n < length (message s)" and le: "n \<le> length (message s)" by simp_all
  let ?body = "\<lambda>count s. let (v, s) = ioread8 (p + count) s
                    in s\<lparr>message := (message s)[count := v]\<rparr>"
  have "fold ?body [0..<Suc n] s = ?body n (fold ?body [0..<n] s)" by simp
  also have "\<dots> = ?body n
      (s\<lparr>message := map (\<lambda>i. mem s (p + i)) [0..<n] @ drop n (message s),
         io_log := io_log s @ map (\<lambda>i. Read8 (p + i)) [0..<n]\<rparr>)"
    by (simp only: Suc.IH [OF le])
  also have "\<dots> =
      s\<lparr>message := map (\<lambda>i. mem s (p + i)) [0..<Suc n] @ drop (Suc n) (message s),
        io_log := io_log s @ map (\<lambda>i. Read8 (p + i)) [0..<Suc n]\<rparr>"
    using lt by (simp add: ioread8_def list_update_append drop_update_hd)
  finally show ?case .
qed

lemma dev_read_attached:
  assumes "pdev s = Some pd" and "drvdata pd = Some gdev"
    and "length (message s) = SZ_12K"
  shows "dev_read writable len offset s =
     (if SZ_12K \<le> writable then Inr 0 else Inl EFAULT,
      take (min SZ_12K writable) (map (\<lambda>i. mem s (PRUSS_SHAREDRAM_BASE + i)) [0..<SZ_12K]),
      s\<lparr>message := map (\<lambda>i. mem s (PRUSS_SHAREDRAM_BASE + i)) [0..<SZ_12K],
        io_log := io_log s @ map (\<lambda>i. Read8 (PRUSS_SHAREDRAM_BASE + i)) [0..<SZ_12K]\<rparr>)"
proof -
  have "for_loop 0 SZ_12K (\<lambda>count s. let (v, s) = ioread8 (0 + PRUSS_SHAREDRAM_BASE + count) s
                    in s\<lparr>message := (message s)[count := v]\<rparr>) s =
     s\<lparr>message := map (\<lambda>i. mem s (PRUSS_SHAREDRAM_BASE + i)) [0..<SZ_12K],
       io_log := io_log s @ map (\<lambda>i. Read8 (PRUSS_SHAREDRAM_BASE + i)) [0..<SZ_12K]\<rparr>"
    unfolding for_loop_fold
    using fold_read_message [of SZ_12K s "0 + PRUSS_SHAREDRAM_BASE"] assms(3) by simp
  then show ?thesis
    unfolding dev_read_def using assms(1,2)
    by (auto simp add: copy_to_user_def Let_def min_def)
qed

lemma and_push_bit_1: "(v AND push_bit n (1 :: u32) = 0) = (\<not> bit v n)"
  by (simp add: and_exp_eq_0_iff_not_bit)

lemma and_nopend: "(v AND HIPIR_NOPEND = 0) = (\<not> bit v 31)"
proof -
  have e: "(0x80000000 :: u32) = 2 ^ 31" by simp
  show ?thesis unfolding HIPIR_NOPEND_def e by (rule and_exp_eq_0_iff_not_bit)
qed

lemma intr_bit_registered:
  assumes "cnt < MAX_PRUSS_EVT"
  shows "unat (of_nat cnt + 2 :: u32) = cnt + 2"
    and "unat (push_bit 2 (of_nat cnt + 2 :: u32)) = 4 * (cnt + 2)"
proof -
  have c: "cnt < 8" using assms by (simp add: MAX_PRUSS_EVT_def)
  have e: "(of_nat cnt + 2 :: u32) = of_nat (cnt + 2)" by simp
  have u: "unat (of_nat (cnt + 2) :: u32) = cnt + 2"
    by (rule of_nat_inverse [OF refl]) (use c in simp)
  show "unat (of_nat cnt + 2 :: u32) = cnt + 2"
    unfolding e by (rule u)
  have p: "push_bit 2 (of_nat (cnt + 2) :: u32) = of_nat (4 * (cnt + 2))"
    by (simp add: push_bit_eq_mult)
  have "unat (of_nat (4 * (cnt + 2)) :: u32) = 4 * (cnt + 2)"
    by (rule of_nat_inverse [OF refl]) (use c in simp)
  then show "unat (push_bit 2 (of_nat cnt + 2 :: u32)) = 4 * (cnt + 2)"
    unfolding e p .
qed

lemma pruss_handler_registered:
  assumes "cnt < MAX_PRUSS_EVT" and "irq = hostirq_start gdev + of_nat cnt"
  shows "pruss_handler irq gdev s =
    (let intc = unat (pintc_base gdev);
         hier = intc + PINTC_HIER;
         hipir = intc + PINTC_HIPIR + 4 * (cnt + 2);
         s1 = s\<lparr>io_log := io_log s @ [Read32 hier]\<rparr>;
         s2 = s\<lparr>io_log := io_log s @ [Read32 hier, Read32 hipir]\<rparr>;
         handled = (\<lambda>s. (IRQ_HANDLED,
            iowrite32 (of_nat cnt + 2) (intc + PINTC_HIDISR)
              (if cnt + 2 = PRU_EVTOUT then complete s else s)))
     in if bit (le32 (mem s) hier) (cnt + 2) then handled s1
        else if bit (le32 (mem s) hipir) 31 then (IRQ_NONE, s2)
        else handled s2)"
proof -
  have e: "irq - hostirq_start gdev + 2 = of_nat cnt + 2"
    by (simp add: assms(2))
  show ?thesis
    unfolding pruss_handler_def e Let_def ioread32_def
      and_push_bit_1 and_nopend intr_bit_registered [OF assms(1)]
    by (simp only: prod.case add_0 fst_conv snd_conv state.simps if_not_P if_P
          not_not split: if_splits) simp
qed




lemma dev_write_send_eq:
  "dev_write_send P buffer len s =
   s\<lparr>mem := (\<lambda>x. if x = P + 1 then 0xFF
                  else if P + 0x68 \<le> x \<and> x < P + 0x68 + unat len then buffer (x - (P + 0x68))
                  else if x = P + 0x64 then ucast len
                  else if x = P + 0x65 then ucast (drop_bit 8 len)
                  else if x = P + 0x66 then ucast (drop_bit 16 len)
                  else if x = P + 0x67 then ucast (drop_bit 24 len)
                  else mem s x),
     io_log := io_log s @ [Read8 (P + 25), Write32 (P + 0x64) len] @
        map (\<lambda>count. Write8 (P + 0x68 + count) (buffer count)) [0..<unat len] @
        [Write8 (P + 1) 0xFF]\<rparr>"
proof -
  have "fold (\<lambda>count. iowrite8 (buffer count) (P + 0x68 + count)) [0..<unat len]
          (iowrite32 len (P + 0x64) (s\<lparr>io_log := io_log s @ [Read8 (P + 25)]\<rparr>)) =
        (iowrite32 len (P + 0x64) (s\<lparr>io_log := io_log s @ [Read8 (P + 25)]\<rparr>))
          \<lparr>mem := (\<lambda>x. if P + 0x68 + 0 \<le> x \<and> x < P + 0x68 + unat len
                       then buffer (x - (P + 0x68))
                       else mem (iowrite32 len (P + 0x64)
                                  (s\<lparr>io_log := io_log s @ [Read8 (P + 25)]\<rparr>)) x),
            io_log := io_log (iowrite32 len (P + 0x64)
                               (s\<lparr>io_log := io_log s @ [Read8 (P + 25)]\<rparr>)) @
               map (\<lambda>count. Write8 (P + 0x68 + count) (buffer count)) [0..<unat len]\<rparr>"
    by (rule fold_iowrite8) simp
  then show ?thesis
    unfolding dev_write_send_def Let_def ioread8_def prod.case for_loop_fold offset_defs
      MESSAGE_TO_SEND_def
    by (simp add: add.assoc) (auto simp add: iowrite8_def iowrite32_def fun_eq_iff)
qed



lemma dev_write_attached:
  assumes "pdev s = Some pd" and "drvdata pd = Some gdev"
  shows "dev_write evs buffer len s =
     (case wait_for_completion gdev evs (dev_write_send PRUSS_SHAREDRAM_BASE buffer len s) of
        None \<Rightarrow> None
      | Some (evs1, s2) \<Rightarrow>
          if mem (dev_write_rearm (unat (pintc_base gdev)) s2) (PRUSS_SHAREDRAM_BASE + MODE_OFFSET)
               = CHAR_M
          then (case poll_status gdev PRUSS_SHAREDRAM_BASE evs1
                       (snd (ioread8 (PRUSS_SHAREDRAM_BASE + MODE_OFFSET)
                              (dev_write_rearm (unat (pintc_base gdev)) s2))) of
                  None \<Rightarrow> None
                | Some (evs', s') \<Rightarrow> Some (Inr (sint len), evs', s'))
          else Some (Inr (sint len), evs1,
                     snd (ioread8 (PRUSS_SHAREDRAM_BASE + MODE_OFFSET)
                           (dev_write_rearm (unat (pintc_base gdev)) s2))))"
  unfolding dev_write_def using assms
  by (simp add: Let_def ioread8_def split: option.splits prod.splits)




lemma dev_write_sleeps_without_completion:
  assumes "pdev s = Some pd" and "drvdata pd = Some gdev" and "completion_done s = 0"
  shows "dev_write [] buffer len s = None"
  unfolding dev_write_attached [OF assms(1,2)] dev_write_send_eq
  using assms(3) by simp

section \<open>Baud-rate configuration\<close>

text \<open>
  Claim C3. For each of the rates 6, 10, 12, 9600, 14400, 19200, 38400, 57600 and 115200
  \<open>__dev_config_baudrate\<close> returns 0 and makes exactly six byte writes, in this order: the
  table's configuration byte at offset 2, the divisor's low byte at offset 3, its high
  byte at offset 4, and the table's byte time, which is below \<open>2 ^ 24\<close>, as its three
  low bytes, least significant first, at offsets 26, 27 and 28; nothing else of the
  state changes. For every other rate it returns \<open>-EINVAL\<close> and the state, log of
  accesses included, is as before.
\<close>

theorem config_baudrate_all_or_nothing:
  "(rate \<in> {6, 10, 12, 9600, 14400, 19200, 38400, 57600, 115200} \<longrightarrow>
      (\<exists>cfg lsb msb ns.
         baud_table rate = Some (cfg, lsb, msb, ns) \<and> ns < 2 ^ 24 \<and>
         dev_config_baudrate a rate s =
           (Inr 0,
            s\<lparr>mem := (mem s)(a + 2 := cfg, a + 3 := lsb, a + 4 := msb,
                             a + 26 := ucast ns,
                             a + 27 := ucast (drop_bit 8 ns),
                             a + 28 := ucast (drop_bit 16 ns)),
              io_log := io_log s @
                [Write8 (a + 2) cfg, Write8 (a + 3) lsb, Write8 (a + 4) msb,
                 Write8 (a + 26) (ucast ns),
                 Write8 (a + 27) (ucast (drop_bit 8 ns)),
                 Write8 (a + 28) (ucast (drop_bit 16 ns))]\<rparr>))) \<and>
   (rate \<notin> {6, 10, 12, 9600, 14400, 19200, 38400, 57600, 115200} \<longrightarrow>
      dev_config_baudrate a rate s = (Inl EINVAL, s))"
proof (intro conjI impI)
  assume "rate \<in> {6, 10, 12, 9600, 14400, 19200, 38400, 57600, 115200}"
  from baud_table_supported [OF this] obtain cfg lsb msb ns where
    t: "baud_table rate = Some (cfg, lsb, msb, ns)" and n: "ns < 2 ^ 24"
    by blast
  from t n dev_config_baudrate_Some [OF t, of a s]
  show "\<exists>cfg lsb msb ns.
         baud_table rate = Some (cfg, lsb, msb, ns) \<and> ns < 2 ^ 24 \<and>
         dev_config_baudrate a rate s =
           (Inr 0,
            s\<lparr>mem := (mem s)(a + 2 := cfg, a + 3 := lsb, a + 4 := msb,
                             a + 26 := ucast ns,
                             a + 27 := ucast (drop_bit 8 ns),
                             a + 28 := ucast (drop_bit 16 ns)),
              io_log := io_log s @
                [Write8 (a + 2) cfg, Write8 (a + 3) lsb, Write8 (a + 4) msb,
                 Write8 (a + 26) (ucast ns),
                 Write8 (a + 27) (ucast (drop_bit 8 ns)),
                 Write8 (a + 28) (ucast (drop_bit 16 ns))]\<rparr>)"
    by blast
next
  assume "rate \<notin> {6, 10, 12, 9600, 14400, 19200, 38400, 57600, 115200}"
  then show "dev_config_baudrate a rate s = (Inl EINVAL, s)"
    by (simp add: baud_table_unsupported dev_config_baudrate_None)
qed

text \<open>The rates 9600 (supported) and 9601 (not supported) on the freshly probed device.\<close>

theorem config_baudrate_all_or_nothing_witness:
  "dev_config_baudrate 0x10000 9600 boot_state =
     (Inr 0,
      boot_state\<lparr>mem := (mem boot_state)(0x10002 := 0x0a, 0x10003 := 0x86, 0x10004 := 0x01,
                       0x1001A := 0x02, 0x1001B := 0xE5, 0x1001C := 0x0F),
        io_log := [Write8 0x10002 0x0a, Write8 0x10003 0x86, Write8 0x10004 0x01,
           Write8 0x1001A 0x02, Write8 0x1001B 0xE5, Write8 0x1001C 0x0F]\<rparr>)
   \<and> dev_config_baudrate 0x10000 9601 boot_state = (Inl EINVAL, boot_state)"
  using config_baudrate_all_or_nothing [of 9600 "0x10000" boot_state]
    config_baudrate_all_or_nothing [of 9601 "0x10000" boot_state]
  by (auto simp add: baud_table_def boot_state_def)


section \<open>The Clean command\<close>

text \<open>
  Claim C6 says that Clean zeroes the first 100 bytes at the base of the mapped I/O
  region and not the shared-RAM window. \<open>dev_unlocked_ioctl\<close> hands
  \<open>__dev_clean_sram\<close> the pointer \<open>p\<close>, which is the base plus \<open>PRUSS_SHAREDRAM_BASE\<close>:
  on a region filled with \<open>0xAA\<close> the byte at the base keeps its value and the byte at
  offset \<open>0x10000\<close> is zeroed.
\<close>

theorem clean_base_counterexample:
  "mem dirty_state 0 = 0xAA \<and>
   mem (snd (dev_unlocked_ioctl PRUSS_CLEAN 0 dirty_state)) 0 = 0xAA \<and>
   mem dirty_state 0x10000 = 0xAA \<and>
   mem (snd (dev_unlocked_ioctl PRUSS_CLEAN 0 dirty_state)) 0x10000 = 0"
proof -
  from ioctl_clean [OF dirty_attached boot_attached(2), of 0] show ?thesis
    by (simp add: dirty_state_def)
qed

text \<open>
  Claim C6, amended. On an attached device the Clean command returns 0 and zeroes exactly
  the 100 bytes at offsets \<open>0x10000\<close> to \<open>0x10063\<close> of the mapped region, the first 100
  bytes of the shared RAM, by 100 byte writes in ascending order; every other byte of
  the region and the rest of the state are unchanged.
\<close>

theorem clean_zeroes_shared_ram:
  assumes "pdev s = Some pd" and "drvdata pd = Some gdev"
  shows "\<exists>s'. dev_unlocked_ioctl PRUSS_CLEAN arg s = (Inr 0, s') \<and>
     (\<forall>x. mem s' x = (if PRUSS_SHAREDRAM_BASE \<le> x \<and> x < PRUSS_SHAREDRAM_BASE + 100
                       then 0 else mem s x)) \<and>
     io_log s' = io_log s @ map (\<lambda>count. Write8 (PRUSS_SHAREDRAM_BASE + count) 0) [0..<100] \<and>
     s' = s\<lparr>mem := mem s', io_log := io_log s'\<rparr>"
  by (simp add: ioctl_clean [OF assms] PRUSS_SHAREDRAM_BASE_def)

text \<open>On the region filled with \<open>0xAA\<close>: the last byte cleaned and its neighbours.\<close>

theorem clean_zeroes_shared_ram_witness:
  "\<exists>s'. dev_unlocked_ioctl PRUSS_CLEAN 0 dirty_state = (Inr 0, s') \<and>
      mem s' 0x10063 = 0 \<and> mem s' 0x10064 = 0xAA \<and> mem s' 0xFFFF = 0xAA \<and> mem s' 99 = 0xAA"
proof -
  from clean_zeroes_shared_ram [OF dirty_attached boot_attached(2), of 0] show ?thesis
    by (auto simp add: dirty_state_def PRUSS_SHAREDRAM_BASE_def)
qed

section \<open>The session lock\<close>

text \<open>
  Claim C8. \<open>dev_open\<close> on a held mutex returns \<open>-EBUSY\<close> and leaves the state as it
  is; on a free mutex it returns 0, takes the mutex and resets the completion. Of two
  consecutive calls of \<open>dev_open\<close> the second returns \<open>-EBUSY\<close> and changes nothing.
  \<open>dev_release\<close> returns 0 and releases the mutex whatever the state.
\<close>

theorem open_close_session:
  "(mutex_locked s \<longrightarrow> dev_open s = (Inl EBUSY, s)) \<and>
   (\<not> mutex_locked s \<longrightarrow>
      dev_open s = (Inr 0, s\<lparr>mutex_locked := True, completion_done := 0\<rparr>)) \<and>
   fst (dev_open (snd (dev_open s))) = Inl EBUSY \<and>
   snd (dev_open (snd (dev_open s))) = snd (dev_open s) \<and>
   dev_release s = (Inr 0, s\<lparr>mutex_locked := False\<rparr>)"
  by (simp add: dev_open_def dev_release_def mutex_trylock_def mutex_unlock_def
      init_completion_def)

theorem open_close_session_witness:
  "dev_open boot_state = (Inr 0, boot_state\<lparr>mutex_locked := True, completion_done := 0\<rparr>) \<and>
   dev_open (boot_state\<lparr>mutex_locked := True, completion_done := 2\<rparr>)
     = (Inl EBUSY, boot_state\<lparr>mutex_locked := True, completion_done := 2\<rparr>)"
  using open_close_session [of boot_state]
    open_close_session [of "boot_state\<lparr>mutex_locked := True, completion_done := 2\<rparr>"]
  by (simp add: boot_state_def)


section \<open>Mode and timeout commands\<close>

text \<open>
  Claim C4. On an attached device the \<open>PRUSS_MODE\<close> command with argument \<open>'M'\<close> or
  \<open>'S'\<close> writes the argument to the mode byte at offset 25 of the shared RAM, then runs
  \<open>__dev_set_sync_stop\<close>, then, for \<open>'S'\<close> only, writes \<open>0x55\<close> to the status byte at
  offset 1, and returns 0. Written out: \<open>'M'\<close> stores \<open>'M'\<close> at \<open>0x10019\<close>, reads it back
  and stores 0 at \<open>0x10005\<close>; \<open>'S'\<close> stores \<open>'S'\<close> at \<open>0x10019\<close>, reads it back and
  stores \<open>0x55\<close> at \<open>0x10001\<close>. Any other argument returns \<open>-EINVAL\<close> and leaves the
  whole state as it is. After \<open>'M'\<close> followed by \<open>'S'\<close> the status byte is \<open>0x55\<close>.
\<close>

theorem set_mode_accepts_M_and_S:
  assumes "pdev s = Some pd" and "drvdata pd = Some gdev"
  shows
   "(m = CHAR_M \<or> m = CHAR_S \<longrightarrow>
       dev_unlocked_ioctl PRUSS_MODE m s =
         (let s1 = iowrite8 (ucast m) (PRUSS_SHAREDRAM_BASE + MODE_OFFSET) s;
              s2 = snd (dev_set_sync_stop PRUSS_SHAREDRAM_BASE s1);
              s3 = (if m = CHAR_S
                    then iowrite8 OLD_MESSAGE (PRUSS_SHAREDRAM_BASE + STATUS_OFFSET) s2 else s2)
          in (Inr 0, s3))) \<and>
    dev_unlocked_ioctl PRUSS_MODE CHAR_M s =
      (Inr 0, s\<lparr>mem := (mem s)(0x10019 := CHAR_M, 0x10005 := 0),
         io_log := io_log s @ [Write8 0x10019 CHAR_M, Read8 0x10019, Write8 0x10005 0]\<rparr>) \<and>
    dev_unlocked_ioctl PRUSS_MODE CHAR_S s =
      (Inr 0, s\<lparr>mem := (mem s)(0x10019 := CHAR_S, 0x10001 := 0x55),
         io_log := io_log s @ [Write8 0x10019 CHAR_S, Read8 0x10019, Write8 0x10001 0x55]\<rparr>) \<and>
    (m \<noteq> CHAR_M \<and> m \<noteq> CHAR_S \<longrightarrow> dev_unlocked_ioctl PRUSS_MODE m s = (Inl EINVAL, s)) \<and>
    mem (snd (dev_unlocked_ioctl PRUSS_MODE CHAR_S
               (snd (dev_unlocked_ioctl PRUSS_MODE CHAR_M s))))
        (PRUSS_SHAREDRAM_BASE + STATUS_OFFSET) = 0x55"
proof (intro conjI impI)
  assume "m = CHAR_M \<or> m = CHAR_S"
  then show "dev_unlocked_ioctl PRUSS_MODE m s =
         (let s1 = iowrite8 (ucast m) (PRUSS_SHAREDRAM_BASE + MODE_OFFSET) s;
              s2 = snd (dev_set_sync_stop PRUSS_SHAREDRAM_BASE s1);
              s3 = (if m = CHAR_S
                    then iowrite8 OLD_MESSAGE (PRUSS_SHAREDRAM_BASE + STATUS_OFFSET) s2 else s2)
          in (Inr 0, s3))"
    by (rule set_mode_steps [OF assms])
next
  show "dev_unlocked_ioctl PRUSS_MODE CHAR_M s =
      (Inr 0, s\<lparr>mem := (mem s)(0x10019 := CHAR_M, 0x10005 := 0),
         io_log := io_log s @ [Write8 0x10019 CHAR_M, Read8 0x10019, Write8 0x10005 0]\<rparr>)"
    by (rule set_mode_M [OF assms])
next
  show "dev_unlocked_ioctl PRUSS_MODE CHAR_S s =
      (Inr 0, s\<lparr>mem := (mem s)(0x10019 := CHAR_S, 0x10001 := 0x55),
         io_log := io_log s @ [Write8 0x10019 CHAR_S, Read8 0x10019, Write8 0x10001 0x55]\<rparr>)"
    by (rule set_mode_S [OF assms])
next
  assume "m \<noteq> CHAR_M \<and> m \<noteq> CHAR_S"
  then show "dev_unlocked_ioctl PRUSS_MODE m s = (Inl EINVAL, s)"
    by (simp add: set_mode_other [OF assms])
next
  have a: "pdev (snd (dev_unlocked_ioctl PRUSS_MODE CHAR_M s)) = Some pd"
    by (rule ioctl_keeps_attached [OF assms])
  show "mem (snd (dev_unlocked_ioctl PRUSS_MODE CHAR_S
               (snd (dev_unlocked_ioctl PRUSS_MODE CHAR_M s))))
        (PRUSS_SHAREDRAM_BASE + STATUS_OFFSET) = 0x55"
    by (simp add: set_mode_S [OF a assms(2)] offset_defs)
qed

text \<open>The arguments \<open>'M'\<close> and \<open>'X'\<close> on the region filled with \<open>0xAA\<close>.\<close>

theorem set_mode_accepts_M_and_S_witness:
  "dev_unlocked_ioctl PRUSS_MODE 0x4D dirty_state =
      (Inr 0, dirty_state\<lparr>mem := (mem dirty_state)(0x10019 := 0x4D, 0x10005 := 0),
         io_log := [Write8 0x10019 0x4D, Read8 0x10019, Write8 0x10005 0]\<rparr>) \<and>
   dev_unlocked_ioctl PRUSS_MODE 0x58 dirty_state = (Inl EINVAL, dirty_state)"
  using set_mode_accepts_M_and_S [OF dirty_attached boot_attached(2), of "0x58"]
    set_mode_accepts_M_and_S [OF dirty_attached boot_attached(2), of "0x4D"]
  by (simp add: CHAR_M_def CHAR_S_def dirty_state_def boot_state_def)



text \<open>
  Claim C5 asks for the lanes \<open>(n * 66600 >> 8 * i) & 0xff\<close> at offsets 6 to 9. With
  \<open>n = 1\<close> these are \<open>0x28\<close>, \<open>0x04\<close>, \<open>0x01\<close>, \<open>0x00\<close>; the command writes \<open>0x28\<close>,
  \<open>0x01\<close>, \<open>0x01\<close>, \<open>0x01\<close>, the upper three being the values of the comparisons
  \<open>arg > 8\<close>, \<open>arg > 16\<close> and \<open>arg > 24\<close>.
\<close>

theorem set_timeout_lanes_of_1:
  "mem (snd (dev_unlocked_ioctl PRUSS_TIMEOUT 1 boot_state)) 0x10006 = 0x28 \<and>
   mem (snd (dev_unlocked_ioctl PRUSS_TIMEOUT 1 boot_state)) 0x10007 = 0x01 \<and>
   mem (snd (dev_unlocked_ioctl PRUSS_TIMEOUT 1 boot_state)) 0x10008 = 0x01 \<and>
   mem (snd (dev_unlocked_ioctl PRUSS_TIMEOUT 1 boot_state)) 0x10009 = 0x01 \<and>
   (ucast (drop_bit 0 (1 * 66600 :: u32) AND 0xff) :: u8) = 0x28 \<and>
   (ucast (drop_bit 8 (1 * 66600 :: u32) AND 0xff) :: u8) = 0x04 \<and>
   (ucast (drop_bit 16 (1 * 66600 :: u32) AND 0xff) :: u8) = 0x01 \<and>
   (ucast (drop_bit 24 (1 * 66600 :: u32) AND 0xff) :: u8) = 0x00"
  by (simp add: set_timeout_eq [OF boot_attached])


section \<open>The read transaction\<close>

text \<open>
  Claim C2 places the bytes that \<open>dev_read\<close> delivers at offset \<open>0x1800\<close> of the shared
  region. The loop reads \<open>p + count\<close>, from offset 0 of the shared region on;
  \<open>SHRAM_READ_OFFSET\<close> is not used by the function. With \<open>0x11\<close> at the start of the
  shared RAM and \<open>0x22\<close> at its offset \<open>0x1800\<close>, a read that succeeds delivers 12288
  bytes of which the first is \<open>0x11\<close>.
\<close>

theorem read_window_counterexample:
  "mem window_state (PRUSS_SHAREDRAM_BASE + SHRAM_READ_OFFSET + 0) = 0x22 \<and>
   fst (dev_read 12288 12288 0 window_state) = Inr 0 \<and>
   length (fst (snd (dev_read 12288 12288 0 window_state))) = 12288 \<and>
   fst (snd (dev_read 12288 12288 0 window_state)) ! 0 = 0x11 \<and>
   message (snd (snd (dev_read 12288 12288 0 window_state))) ! 0 = 0x11"
proof -
  have z: "0 < SZ_12K" by (simp add: SZ_12K_def)
  have m: "mem window_state (PRUSS_SHAREDRAM_BASE + 0) = 0x11"
    "mem window_state (PRUSS_SHAREDRAM_BASE + SHRAM_READ_OFFSET + 0) = 0x22"
    by (simp_all add: window_state_def offset_defs)
  have n: "map (\<lambda>i. mem window_state (PRUSS_SHAREDRAM_BASE + i)) [0..<SZ_12K] ! 0 = 0x11"
    using z m(1) by (simp only: nth_map_upt diff_zero add_0)
  show ?thesis
    using m(2) n
    by (simp add: dev_read_attached [OF window_attached(1) boot_attached(2) window_attached(2)])
       (simp add: SZ_12K_def)
qed

text \<open>
  Claim C2, amended. Every call of \<open>dev_read\<close> on an attached device reads the 12288
  bytes at offsets \<open>0\<close> to \<open>0x2FFF\<close> of the shared region (offsets \<open>0x10000\<close> to
  \<open>0x12FFF\<close> of the mapped region), in ascending order, into \<open>message\<close>, replacing all
  of it, and changes no byte of the region. When the caller's buffer can take 12288
  bytes it receives exactly these bytes and the call returns 0; otherwise the call
  returns \<open>-EFAULT\<close>. No byte of the region is interpreted, so the values of the status
  and mode bytes play no part.
\<close>

theorem read_copies_shared_ram_head:
  assumes "pdev s = Some pd" and "drvdata pd = Some gdev"
    and "length (message s) = SZ_12K"
  shows "\<exists>r user s'. dev_read writable len offset s = (r, user, s') \<and>
     message s' = map (\<lambda>i. mem s (PRUSS_SHAREDRAM_BASE + i)) [0..<SZ_12K] \<and>
     length (message s') = 12288 \<and>
     mem s' = mem s \<and>
     io_log s' = io_log s @ map (\<lambda>i. Read8 (PRUSS_SHAREDRAM_BASE + i)) [0..<SZ_12K] \<and>
     (SZ_12K \<le> writable \<longrightarrow> r = Inr 0 \<and> user = message s') \<and>
     (writable < SZ_12K \<longrightarrow> r = Inl EFAULT)"
  by (simp add: dev_read_attached [OF assms]) (simp add: SZ_12K_def)

text \<open>A buffer of 12288 writable bytes, and one of 12287.\<close>

theorem read_copies_shared_ram_head_witness:
  "\<exists>r user s'. dev_read 12288 4 0 window_state = (r, user, s') \<and> r = Inr 0 \<and>
     user = map (\<lambda>i. mem window_state (PRUSS_SHAREDRAM_BASE + i)) [0..<SZ_12K] \<and>
     message s' = user \<and>
     (\<exists>r'. fst (dev_read 12287 4 0 window_state) = Inl r')"
  using read_copies_shared_ram_head [OF window_attached(1) boot_attached(2) window_attached(2),
      of 12288 4 0]
    read_copies_shared_ram_head [OF window_attached(1) boot_attached(2) window_attached(2),
      of 12287 4 0]
  by (auto simp add: SZ_12K_def)

text \<open>
  Claim C9. On an attached device, whatever \<open>len\<close> and \<open>offset\<close> are: a call of
  \<open>dev_read\<close> that returns without error returns 0 and has put 12288 bytes, the
  contents of \<open>message\<close>, into the caller's buffer; it does so whenever that buffer can
  take 12288 bytes; and the whole result is the same for any other \<open>len\<close> and
  \<open>offset\<close>.
\<close>

theorem read_ignores_len_and_offset:
  assumes "pdev s = Some pd" and "drvdata pd = Some gdev"
    and "length (message s) = SZ_12K"
  shows "(\<forall>r. fst (dev_read writable len offset s) = Inr r \<longrightarrow>
            r = 0 \<and> length (fst (snd (dev_read writable len offset s))) = 12288 \<and>
            fst (snd (dev_read writable len offset s))
              = message (snd (snd (dev_read writable len offset s)))) \<and>
         (12288 \<le> writable \<longrightarrow> fst (dev_read writable len offset s) = Inr 0) \<and>
         dev_read writable len' offset' s = dev_read writable len offset s"
  by (simp add: dev_read_attached [OF assms]) (simp add: SZ_12K_def)

text \<open>A caller asking for one byte at offset 7, with 20000 writable bytes.\<close>

theorem read_ignores_len_and_offset_witness:
  "fst (dev_read 20000 1 7 boot_state) = Inr 0 \<and>
   length (fst (snd (dev_read 20000 1 7 boot_state))) = 12288 \<and>
   dev_read 20000 12288 0 boot_state = dev_read 20000 1 7 boot_state"
proof -
  note t = read_ignores_len_and_offset [OF boot_attached boot_message_length, of 20000 1 7 12288 0]
  from t have a: "fst (dev_read 20000 1 7 boot_state) = Inr 0" by simp
  from t a have "length (fst (snd (dev_read 20000 1 7 boot_state))) = 12288" by blast
  with t a show ?thesis by blast
qed


section \<open>The interrupt handler\<close>

text \<open>
  Claim C7. For each of the eight lines the driver registers
  (\<open>irq = hostirq_start + cnt\<close>, \<open>cnt < 8\<close>) the handler works on the event
  \<open>intr_bit = cnt + 2\<close>. It returns \<open>IRQ_NONE\<close> exactly when bit \<open>intr_bit\<close> of the
  enable register is clear (not enabled) and bit 31 of the event's pending register,
  the no-pending flag, is set (not pending); it then makes no write, and nothing of the
  state but the log of reads changes. In every other case it returns \<open>IRQ_HANDLED\<close>,
  its only write is \<open>intr_bit\<close> to the disable register \<open>PINTC_HIDISR\<close>, and the
  completion is signalled once if \<open>intr_bit = 3\<close> (\<open>PRU_EVTOUT\<close>) and not at all
  otherwise.
\<close>

theorem pruss_handler_event:
  assumes "cnt < MAX_PRUSS_EVT" and "irq = hostirq_start gdev + of_nat cnt"
  shows "let intc = unat (pintc_base gdev);
             intr_bit = cnt + 2;
             enabled = bit (le32 (mem s) (intc + PINTC_HIER)) intr_bit;
             pending = (\<not> bit (le32 (mem s) (intc + PINTC_HIPIR + 4 * intr_bit)) 31);
             r = fst (pruss_handler irq gdev s);
             s' = snd (pruss_handler irq gdev s)
         in (r = IRQ_NONE \<longleftrightarrow> \<not> enabled \<and> \<not> pending) \<and>
            (r = IRQ_NONE \<longrightarrow>
               filter is_write (io_log s') = filter is_write (io_log s) \<and>
               s' = s\<lparr>io_log := io_log s'\<rparr>) \<and>
            (r \<noteq> IRQ_NONE \<longrightarrow>
               r = IRQ_HANDLED \<and>
               filter is_write (io_log s') =
                 filter is_write (io_log s) @ [Write32 (intc + PINTC_HIDISR) (of_nat cnt + 2)] \<and>
               completion_done s' =
                 (if intr_bit = 3 then Suc (completion_done s) else completion_done s))"
  unfolding pruss_handler_registered [OF assms] Let_def
  by (simp add: iowrite32_def complete_def PRU_EVTOUT_def del: of_nat_add)


text \<open>
  The line \<open>hostirq_start + 1\<close>, event 3: with the event enabled, and with the event
  neither enabled nor pending.
\<close>

theorem pruss_handler_event_witness:
  "fst (pruss_handler 21 probed_dev armed_state) = IRQ_HANDLED \<and>
   completion_done (snd (pruss_handler 21 probed_dev armed_state)) = 1 \<and>
   filter is_write (io_log (snd (pruss_handler 21 probed_dev armed_state))) = [Write32 0x20038 3] \<and>
   fst (pruss_handler 21 probed_dev idle_state) = IRQ_NONE \<and>
   completion_done (snd (pruss_handler 21 probed_dev idle_state)) = 0 \<and>
   filter is_write (io_log (snd (pruss_handler 21 probed_dev idle_state))) = []"
proof -
  have c: "(1::nat) < MAX_PRUSS_EVT" by (simp add: MAX_PRUSS_EVT_def)
  have i: "(21 :: u32) = hostirq_start probed_dev + of_nat 1" by (simp add: probed_dev_def)
  note a = pruss_handler_event [OF c i, of armed_state]
  note b = pruss_handler_event [OF c i, of idle_state]
  have ea: "bit (le32 (mem armed_state) (unat (pintc_base probed_dev) + PINTC_HIER)) (1 + 2)"
    by (simp add: armed_state_def probed_dev_def PINTC_HIER_def le32_def)
  have eb: "\<not> bit (le32 (mem idle_state) (unat (pintc_base probed_dev) + PINTC_HIER)) (1 + 2)"
    by (simp add: idle_state_def probed_dev_def PINTC_HIER_def le32_def)
  have pb: "bit (le32 (mem idle_state) (unat (pintc_base probed_dev) + PINTC_HIPIR + 4 * (1 + 2))) 31"
    by (simp add: idle_state_def probed_dev_def PINTC_HIPIR_def le32_def bit_simps)
  from a ea have "fst (pruss_handler 21 probed_dev armed_state) = IRQ_HANDLED \<and>
   completion_done (snd (pruss_handler 21 probed_dev armed_state)) = 1 \<and>
   filter is_write (io_log (snd (pruss_handler 21 probed_dev armed_state))) = [Write32 0x20038 3]"
    by (simp add: Let_def armed_state_def boot_state_def probed_dev_def PINTC_HIDISR_def)
  moreover from b eb pb have "fst (pruss_handler 21 probed_dev idle_state) = IRQ_NONE"
    by (simp add: Let_def)
  moreover from b eb pb have s: "snd (pruss_handler 21 probed_dev idle_state)
     = idle_state\<lparr>io_log := io_log (snd (pruss_handler 21 probed_dev idle_state))\<rparr>"
    and "filter is_write (io_log (snd (pruss_handler 21 probed_dev idle_state))) = []"
    by (simp_all add: Let_def idle_state_def boot_state_def)
  moreover have "completion_done (snd (pruss_handler 21 probed_dev idle_state)) = 0"
    by (subst s) (simp add: idle_state_def boot_state_def)
  ultimately show ?thesis by simp
qed


section \<open>The write transaction\<close>





end
